theory Spec2Isabelle
  imports Complex_Main
begin

section \<open>The todo server: values, session store, normalisation and formatting\<close>

text \<open>
  This theory embeds \<^verbatim>\<open>server.py\<close> of the todo server: the session key resolver
  \<^verbatim>\<open>_get_session_key\<close>, the lazily created per-session store behind
  \<^verbatim>\<open>_get_todos\<close>, the formatter \<^verbatim>\<open>_format_todos\<close> and the tool
  \<^verbatim>\<open>write_todos\<close> with its normalisation loop. A leading underscore is not
  allowed in a name here, so the three helpers appear without it.
\<close>

subsection \<open>Python values\<close>

text \<open>
  The tool receives decoded JSON, so a raw value is one of \<^verbatim>\<open>None\<close>, a bool, an int,
  a float, a str, a list or a dict with string keys. A dict is kept as the list of its items
  in insertion order and read with \<open>map_of\<close>; the keys of a dict are distinct, and
  nothing below depends on it. The program never does arithmetic on a
  float: it only asks whether it is zero, so a real number stands for it (NaN and the
  infinities are truthy, as every nonzero number is). A str is a list of bytes (its UTF-8
  encoding): the program only tests strings for emptiness and for equality with ASCII
  literals, and copies them. Running out of memory is outside the model.
\<close>

datatype pyval =
    PNone
  | PBool bool
  | PInt int
  | PFloat real
  | PStr string
  | PList "pyval list"
  | PDict "(string \<times> pyval) list"

datatype error = AttributeError | TypeError | ValueError | RecursionError

text \<open>Truth value testing, \<^verbatim>\<open>bool(v)\<close>: what \<^verbatim>\<open>not v\<close> and \<^verbatim>\<open>v or w\<close> look at.\<close>

fun truthy :: "pyval \<Rightarrow> bool" where
  "truthy PNone = False"
| "truthy (PBool b) = b"
| "truthy (PInt n) = (n \<noteq> 0)"
| "truthy (PFloat x) = (x \<noteq> 0)"
| "truthy (PStr s) = (s \<noteq> [])"
| "truthy (PList xs) = (xs \<noteq> [])"
| "truthy (PDict d) = (d \<noteq> [])"

text \<open>\<^verbatim>\<open>a or b\<close> gives \<^verbatim>\<open>a\<close> when it is truthy and \<^verbatim>\<open>b\<close> otherwise.\<close>

definition py_or :: "pyval \<Rightarrow> pyval \<Rightarrow> pyval" where
  "py_or a b = (if truthy a then a else b)"

text \<open>Lists and dicts cannot be hashed; using one as a dictionary key raises TypeError.\<close>

fun hashable :: "pyval \<Rightarrow> bool" where
  "hashable (PList xs) = False"
| "hashable (PDict d) = False"
| "hashable v = True"

text \<open>\<^verbatim>\<open>d.get(key, default)\<close> on a dict \<open>d\<close>.\<close>

definition dict_get :: "(string \<times> pyval) list \<Rightarrow> string \<Rightarrow> pyval \<Rightarrow> pyval" where
  "dict_get d key dflt = (case map_of d key of Some v \<Rightarrow> v | None \<Rightarrow> dflt)"

subsection \<open>Text of values\<close>

text \<open>
  Decimal digits of a natural number, as \<^verbatim>\<open>str\<close> prints an int that is within the
  interpreter's limit on the length of such a text. The program prints the index of a task
  and the three counts this way: each is at most the length of a list, which the interpreter
  keeps below \<open>2 ^ 63\<close>, far from the limit.
\<close>

fun str_nat :: "nat \<Rightarrow> string" where
  "str_nat n =
     (if n < 10 then [''0123456789'' ! n]
      else str_nat (n div 10) @ [''0123456789'' ! (n mod 10)])"

declare str_nat.simps [simp del]

text \<open>
  The text of an arbitrary int. The interpreter refuses to convert an int of more than
  \<^verbatim>\<open>sys.int_max_str_digits\<close> decimal digits (4300 unless configured otherwise) and
  raises ValueError.
\<close>

definition int_max_str_digits :: nat where
  "int_max_str_digits = 4300"

definition str_int :: "int \<Rightarrow> error + string" where
  "str_int n =
     (if 10 ^ int_max_str_digits \<le> \<bar>n\<bar> then Inl ValueError
      else Inr (if n < 0 then ''-'' @ str_nat (nat (- n)) else str_nat (nat n)))"

text \<open>
  What a replacement field \<^verbatim>\<open>{v}\<close> of an f-string prints, or the exception it
  raises. A str prints as itself. The text of a float, a list or a dict is the interpreter's
  \<^verbatim>\<open>repr\<close>, which is not part of this program: it is the parameter \<open>repr\<close>, and
  it may fail (RecursionError on a deeply nested value, ValueError on a list that holds an
  int too long to print).
\<close>

fun py_str :: "(pyval \<Rightarrow> error + string) \<Rightarrow> pyval \<Rightarrow> error + string" where
  "py_str repr (PStr s) = Inr s"
| "py_str repr PNone = Inr ''None''"
| "py_str repr (PBool b) = Inr (if b then ''True'' else ''False'')"
| "py_str repr (PInt n) = str_int n"
| "py_str repr v = repr v"

text \<open>\<^verbatim>\<open>sep.join(xs)\<close>.\<close>

fun str_join :: "string \<Rightarrow> string list \<Rightarrow> string" where
  "str_join sep [] = []"
| "str_join sep [x] = x"
| "str_join sep (x # y # ys) = x @ sep @ str_join sep (y # ys)"

subsection \<open>Session key and session store\<close>

text \<open>
  The context is read through its two optional attributes only.
  \<^verbatim>\<open>ctx.session_id or ctx.client_id or "default"\<close> skips an attribute that is
  \<^verbatim>\<open>None\<close> or the empty string.
\<close>

record "context" =
  session_id :: "string option"
  client_id :: "string option"

definition get_session_key :: "context \<Rightarrow> string" where
  "get_session_key ctx =
     (case session_id ctx of
        Some s \<Rightarrow> if s \<noteq> [] then s
                 else (case client_id ctx of
                         Some c \<Rightarrow> if c \<noteq> [] then c else ''default''
                       | None \<Rightarrow> ''default'')
      | None \<Rightarrow> (case client_id ctx of
                   Some c \<Rightarrow> if c \<noteq> [] then c else ''default''
                 | None \<Rightarrow> ''default''))"

text \<open>
  The module-level dict \<^verbatim>\<open>_session_todos\<close>, empty when the module is loaded. No
  function of the program changes a list in place (a write stores a freshly built list), so
  the store maps a key to the value of its list.
\<close>

type_synonym session_todos = "string \<rightharpoonup> pyval list"

definition initial_store :: session_todos where
  "initial_store = Map.empty"

text \<open>\<^verbatim>\<open>_get_todos\<close>: the list of a session, stored as the empty list first if the key is new.\<close>

definition get_todos :: "string \<Rightarrow> session_todos \<Rightarrow> pyval list \<times> session_todos" where
  "get_todos session_key st =
     (case st session_key of
        None \<Rightarrow> ([], st(session_key \<mapsto> []))
      | Some todos \<Rightarrow> (todos, st))"

subsection \<open>The formatter\<close>

definition status_icons :: "(string \<times> string) list" where
  "status_icons =
     [(''pending'', ''[ ]''), (''in_progress'', ''[~]''), (''completed'', ''[x]'')]"

text \<open>
  \<^verbatim>\<open>{...}.get(key, "[ ]")\<close> on the icon table: the key is hashed first, and only a
  str can be equal to one of the table's keys.
\<close>

definition icon_get :: "pyval \<Rightarrow> error + string" where
  "icon_get key =
     (if \<not> hashable key then Inl TypeError
      else Inr (case key of
                  PStr s \<Rightarrow> (case map_of status_icons s of Some icon \<Rightarrow> icon | None \<Rightarrow> ''[ ]'')
                | _ \<Rightarrow> ''[ ]''))"

text \<open>
  The loop over \<^verbatim>\<open>enumerate(todos, 1)\<close>, carrying the index and the lines collected
  so far. An element without a \<^verbatim>\<open>get\<close> method (anything but a dict) raises
  AttributeError, an unhashable status raises TypeError, and the f-string raises what printing
  the label raises.
\<close>

fun format_loop ::
  "(pyval \<Rightarrow> error + string) \<Rightarrow> nat \<Rightarrow> pyval list \<Rightarrow> string list
     \<Rightarrow> error + string list" where
  "format_loop repr i [] lines = Inr lines"
| "format_loop repr i (todo # rest) lines =
     (case todo of
        PDict d \<Rightarrow>
          (case icon_get (dict_get d ''status'' (PStr ''pending'')) of
             Inl e \<Rightarrow> Inl e
           | Inr status_icon \<Rightarrow>
               (let content = dict_get d ''content'' (PStr '''');
                    active_form = dict_get d ''activeForm'' (PStr '''');
                    status = dict_get d ''status'' (PStr ''pending'')
                in if status = PStr ''in_progress''
                   then (case py_str repr active_form of
                           Inl e \<Rightarrow> Inl e
                         | Inr txt \<Rightarrow>
                             format_loop repr (Suc i) rest
                               (lines @ [str_nat i @ ''. '' @ status_icon @ '' '' @ txt]))
                   else (case py_str repr content of
                           Inl e \<Rightarrow> Inl e
                         | Inr txt \<Rightarrow>
                             format_loop repr (Suc i) rest
                               (lines @ [str_nat i @ ''. '' @ status_icon @ '' '' @ txt]))))
      | _ \<Rightarrow> Inl AttributeError)"

text \<open>\<^verbatim>\<open>sum(1 for t in todos if t.get("status") == s)\<close>.\<close>

fun count_status :: "string \<Rightarrow> pyval list \<Rightarrow> error + nat" where
  "count_status s [] = Inr 0"
| "count_status s (t # ts) =
     (case t of
        PDict d \<Rightarrow>
          (case count_status s ts of
             Inl e \<Rightarrow> Inl e
           | Inr n \<Rightarrow> Inr (if dict_get d ''status'' PNone = PStr s then Suc n else n))
      | _ \<Rightarrow> Inl AttributeError)"

definition summary_phrase :: "nat \<Rightarrow> nat \<Rightarrow> nat \<Rightarrow> string" where
  "summary_phrase pending in_progress completed =
     str_nat pending @ '' pending, '' @ str_nat in_progress @ '' in progress, ''
       @ str_nat completed @ '' completed''"

text \<open>The list \<^verbatim>\<open>lines\<close> of a non-empty todo list, as it is just before the join.\<close>

definition format_lines ::
  "(pyval \<Rightarrow> error + string) \<Rightarrow> pyval list \<Rightarrow> error + string list" where
  "format_lines repr todos =
     (case format_loop repr 1 todos [''Todo List:''] of
        Inl e \<Rightarrow> Inl e
      | Inr lines \<Rightarrow>
          (case count_status ''pending'' todos of
             Inl e \<Rightarrow> Inl e
           | Inr pending \<Rightarrow>
               (case count_status ''in_progress'' todos of
                  Inl e \<Rightarrow> Inl e
                | Inr in_progress \<Rightarrow>
                    (case count_status ''completed'' todos of
                       Inl e \<Rightarrow> Inl e
                     | Inr completed \<Rightarrow>
                         Inr (lines @
                              [''\<newline>Summary: '' @ summary_phrase pending in_progress completed])))))"

definition format_todos ::
  "(pyval \<Rightarrow> error + string) \<Rightarrow> pyval list \<Rightarrow> error + string" where
  "format_todos repr todos =
     (if todos = [] then Inr ''Todo list is empty.''
      else (case format_lines repr todos of
              Inl e \<Rightarrow> Inl e
            | Inr lines \<Rightarrow> Inr (str_join ''\<newline>'' lines)))"

subsection \<open>The tool \<^verbatim>\<open>write_todos\<close>\<close>

definition valid_statuses :: "pyval list" where
  "valid_statuses = [PStr ''pending'', PStr ''in_progress'', PStr ''completed'']"

text \<open>
  The loop of \<^verbatim>\<open>write_todos\<close> that fills \<^verbatim>\<open>validated_todos\<close>: the first argument is
  the list built so far, \<^verbatim>\<open>continue\<close> goes on with it unchanged.
\<close>

fun validate_loop :: "pyval list \<Rightarrow> pyval list \<Rightarrow> pyval list" where
  "validate_loop validated [] = validated"
| "validate_loop validated (todo # rest) =
     (case todo of
        PDict d \<Rightarrow>
          (let content = dict_get d ''content'' (PStr '''');
               active_form = dict_get d ''activeForm'' (PStr '''');
               status = dict_get d ''status'' (PStr ''pending'')
           in if \<not> truthy content then validate_loop validated rest
              else let status = (if status \<notin> set valid_statuses then PStr ''pending'' else status)
                   in validate_loop
                        (validated @
                           [PDict [(''content'', content),
                                   (''activeForm'', py_or active_form content),
                                   (''status'', status)]])
                        rest)
      | _ \<Rightarrow> validate_loop validated rest)"

definition validated_todos :: "pyval list \<Rightarrow> pyval list" where
  "validated_todos todos = validate_loop [] todos"

text \<open>
  The tool: the result of the call (the formatted text, or the exception raised) and the
  store after it. The store is assigned before the formatter runs.
\<close>

definition write_todos ::
  "(pyval \<Rightarrow> error + string) \<Rightarrow> pyval list \<Rightarrow> context \<Rightarrow> session_todos
     \<Rightarrow> (error + string) \<times> session_todos" where
  "write_todos repr todos ctx st =
     (let session_key = get_session_key ctx;
          validated = validated_todos todos;
          st' = st(session_key \<mapsto> validated)
      in (format_todos repr validated, st'))"

subsection \<open>Operations on the store\<close>

text \<open>
  The two ways a caller touches the store: a read of a session's list through
  \<^verbatim>\<open>_get_todos\<close> and a call of the tool. \<open>run\<close> applies a sequence of them, first
  to last, and gives the store they leave.
\<close>

datatype operation = Get string | Write "pyval list" "context"

fun step ::
  "(pyval \<Rightarrow> error + string) \<Rightarrow> operation \<Rightarrow> session_todos \<Rightarrow> session_todos" where
  "step repr (Get session_key) st = snd (get_todos session_key st)"
| "step repr (Write todos ctx) st = snd (write_todos repr todos ctx st)"

definition run ::
  "(pyval \<Rightarrow> error + string) \<Rightarrow> operation list \<Rightarrow> session_todos \<Rightarrow> session_todos" where
  "run repr ops st = fold (step repr) ops st"

section \<open>What the specification says\<close>

subsection \<open>Normalisation as a filter-map\<close>

text \<open>
  The specification's normalisation, written from its five steps. Its word ``empty'' is
  read as Python's falsity, the test the program applies with \<^verbatim>\<open>not\<close> and
  \<^verbatim>\<open>or\<close>: on text, the type the specification gives the fields, a value is falsy
  exactly when it is the empty string.
\<close>

definition is_empty :: "pyval \<Rightarrow> bool" where
  "is_empty v = (\<not> truthy v)"

definition spec_normalize_entry :: "pyval \<Rightarrow> pyval option" where
  "spec_normalize_entry raw =
     (case raw of
        PDict d \<Rightarrow>
          (let content = (case map_of d ''content'' of Some v \<Rightarrow> v | None \<Rightarrow> PStr '''');
               activeForm = (case map_of d ''activeForm'' of Some v \<Rightarrow> v | None \<Rightarrow> PStr '''');
               status = (case map_of d ''status'' of Some v \<Rightarrow> v | None \<Rightarrow> PStr ''pending'')
           in if is_empty content then None
              else Some (PDict
                     [(''content'', content),
                      (''activeForm'', if is_empty activeForm then content else activeForm),
                      (''status'',
                         if status = PStr ''pending'' \<or> status = PStr ''in_progress''
                            \<or> status = PStr ''completed''
                         then status else PStr ''pending'')]))
      | _ \<Rightarrow> None)"

definition spec_normalize :: "pyval list \<Rightarrow> pyval list" where
  "spec_normalize raws = List.map_filter spec_normalize_entry raws"

text \<open>
  A stored task that satisfies the normalisation rules: a dict with the three fields, content
  and activeForm non-empty, status one of the three recognised words.
\<close>

fun task_ok :: "pyval \<Rightarrow> bool" where
  "task_ok (PDict d) =
     (case (map_of d ''content'', map_of d ''activeForm'', map_of d ''status'') of
        (Some c, Some a, Some s) \<Rightarrow>
           \<not> is_empty c \<and> \<not> is_empty a
           \<and> (s = PStr ''pending'' \<or> s = PStr ''in_progress'' \<or> s = PStr ''completed'')
      | _ \<Rightarrow> False)"
| "task_ok v = False"

text \<open>The invariant of the store: every stored task is normalised.\<close>

definition store_ok :: "session_todos \<Rightarrow> bool" where
  "store_ok st = (\<forall>k ts. st k = Some ts \<longrightarrow> list_all task_ok ts)"

subsection \<open>The lines of the formatted text\<close>

text \<open>
  The lists whose elements the formatter can read: every element is a dict, and its status
  (or the default, when it has none) can be hashed. Every normalised list is one of them
  (lemma \<open>spec_normalize_formattable\<close> below). On such a list the formatter can
  still fail, when it prints a label.
\<close>

fun formattable :: "pyval \<Rightarrow> bool" where
  "formattable (PDict d) = hashable (dict_get d ''status'' (PStr ''pending''))"
| "formattable v = False"

text \<open>A field of a task, with the default the formatter uses when the task lacks it.\<close>

fun task_field :: "pyval \<Rightarrow> string \<Rightarrow> pyval \<Rightarrow> pyval" where
  "task_field (PDict d) key dflt = (case map_of d key of Some v \<Rightarrow> v | None \<Rightarrow> dflt)"
| "task_field v key dflt = dflt"

text \<open>
  Decimal notation, on its own terms: the digits of a number, most significant first, and
  their characters. \<open>decimal_value\<close> reads such a text back.
\<close>

fun decimal_digits :: "nat \<Rightarrow> nat list" where
  "decimal_digits n = (if n < 10 then [n] else decimal_digits (n div 10) @ [n mod 10])"

declare decimal_digits.simps [simp del]

definition decimal_table :: "(nat \<times> char) list" where
  "decimal_table =
     [(0, CHR ''0''), (1, CHR ''1''), (2, CHR ''2''), (3, CHR ''3''), (4, CHR ''4''),
      (5, CHR ''5''), (6, CHR ''6''), (7, CHR ''7''), (8, CHR ''8''), (9, CHR ''9'')]"

definition digit_char :: "nat \<Rightarrow> char" where
  "digit_char d = (case map_of decimal_table d of Some c \<Rightarrow> c | None \<Rightarrow> CHR ''?'')"

definition decimal :: "nat \<Rightarrow> string" where
  "decimal n = map digit_char (decimal_digits n)"

definition digit_value :: "char \<Rightarrow> nat option" where
  "digit_value c = map_of (map (\<lambda>(d, c). (c, d)) decimal_table) c"

definition decimal_value :: "string \<Rightarrow> nat option" where
  "decimal_value s =
     foldl (\<lambda>acc c. case acc of
                       None \<Rightarrow> None
                     | Some a \<Rightarrow> (case digit_value c of
                                    None \<Rightarrow> None
                                  | Some d \<Rightarrow> Some (10 * a + d)))
       (Some 0) s"

text \<open>
  The text Python prints for a value, when it prints one: a str is its own text; an int of
  at most 4300 digits is its decimal notation, with a minus sign when negative; for a float,
  a list or a dict it is what \<open>repr\<close> gives, when it gives a text.
\<close>

definition printable_int :: "int \<Rightarrow> bool" where
  "printable_int n = (\<bar>n\<bar> < 10 ^ 4300)"

fun spec_text :: "(pyval \<Rightarrow> error + string) \<Rightarrow> pyval \<Rightarrow> string option" where
  "spec_text repr (PStr s) = Some s"
| "spec_text repr PNone = Some ''None''"
| "spec_text repr (PBool b) = Some (if b then ''True'' else ''False'')"
| "spec_text repr (PInt n) =
     (if printable_int n
      then Some ((if n < 0 then ''-'' else []) @ decimal (nat \<bar>n\<bar>))
      else None)"
| "spec_text repr v = (case repr v of Inr txt \<Rightarrow> Some txt | Inl e \<Rightarrow> None)"

text \<open>
  The icon of a status, the label of a task, and the line of the task at 1-based position
  \<open>i\<close>, as specified. A task has a line when its label can be printed.
\<close>

definition spec_icon :: "pyval \<Rightarrow> string" where
  "spec_icon status =
     (if status = PStr ''pending'' then ''[ ]''
      else if status = PStr ''in_progress'' then ''[~]''
      else if status = PStr ''completed'' then ''[x]''
      else ''[ ]'')"

definition spec_label :: "pyval \<Rightarrow> pyval" where
  "spec_label t =
     (if task_field t ''status'' (PStr ''pending'') = PStr ''in_progress''
      then task_field t ''activeForm'' (PStr '''')
      else task_field t ''content'' (PStr ''''))"

definition label_printable :: "(pyval \<Rightarrow> error + string) \<Rightarrow> pyval \<Rightarrow> bool" where
  "label_printable repr t = (spec_text repr (spec_label t) \<noteq> None)"

definition spec_task_line :: "(pyval \<Rightarrow> error + string) \<Rightarrow> nat \<Rightarrow> pyval \<Rightarrow> string option" where
  "spec_task_line repr i t =
     (case spec_text repr (spec_label t) of
        None \<Rightarrow> None
      | Some txt \<Rightarrow>
          Some (decimal i @ ''. '' @ spec_icon (task_field t ''status'' (PStr ''pending''))
                  @ '' '' @ txt))"

text \<open>Lines put together into one text, a newline between each two.\<close>

fun newline_separated :: "string list \<Rightarrow> string" where
  "newline_separated [] = []"
| "newline_separated (l # ls) = l @ concat (map (\<lambda>x. CHR 0x0A # x) ls)"

text \<open>The count phrase, its three counts taken by scanning the list.\<close>

definition has_status :: "string \<Rightarrow> pyval \<Rightarrow> bool" where
  "has_status s t = (task_field t ''status'' PNone = PStr s)"

definition count_phrase :: "pyval list \<Rightarrow> string" where
  "count_phrase todos =
     decimal (length (filter (has_status ''pending'') todos)) @ '' pending, ''
       @ decimal (length (filter (has_status ''in_progress'') todos)) @ '' in progress, ''
       @ decimal (length (filter (has_status ''completed'') todos)) @ '' completed''"

text \<open>
  The lines of a text, as \<^verbatim>\<open>text.split("\n")\<close> gives them: the pieces between
  newline characters, so a text that ends in a newline has an empty last line.
\<close>

fun split_lines :: "string \<Rightarrow> string list" where
  "split_lines [] = [[]]"
| "split_lines (c # cs) =
     (if c = CHR 0x0A then [] # split_lines cs
      else (case split_lines cs of [] \<Rightarrow> [[c]] | l # ls \<Rightarrow> (c # l) # ls))"

definition last_line :: "string \<Rightarrow> string" where
  "last_line out = last (split_lines out)"

subsection \<open>Example inputs\<close>

text \<open>
  The scenario of four tasks, and a list that exercises every branch of the normalisation:
  an entry that is not a dict, an empty content, an unknown status with no activeForm, a
  well-formed task, and a task whose fields are not text.
\<close>

definition four_tasks :: "pyval list" where
  "four_tasks =
     [PDict [(''content'', PStr ''A''), (''status'', PStr ''pending'')],
      PDict [(''content'', PStr ''B''), (''status'', PStr ''pending'')],
      PDict [(''content'', PStr ''C''), (''status'', PStr ''in_progress'')],
      PDict [(''content'', PStr ''D''), (''status'', PStr ''completed'')]]"

definition mixed_raw :: "pyval list" where
  "mixed_raw =
     [PInt 3,
      PDict [(''content'', PStr ''''), (''activeForm'', PStr ''x''), (''status'', PStr ''pending'')],
      PDict [(''content'', PStr ''T''), (''status'', PStr ''bogus'')],
      PDict [(''content'', PStr ''U''), (''activeForm'', PStr ''Doing U''),
             (''status'', PStr ''in_progress'')],
      PDict [(''content'', PInt 5), (''activeForm'', PNone), (''status'', PList [])]]"

definition session1 :: "context" where
  "session1 = \<lparr>session_id = Some ''s1'', client_id = None\<rparr>"

definition session1_by_client :: "context" where
  "session1_by_client = \<lparr>session_id = Some '''', client_id = Some ''s1''\<rparr>"

definition session2 :: "context" where
  "session2 = \<lparr>session_id = None, client_id = Some ''s2''\<rparr>"

text \<open>
  The examples put only None, bools, ints and strings in front of the formatter, so the
  interpreter's \<^verbatim>\<open>repr\<close> is never consulted on them; this one returns no text.
\<close>

definition repr_unused :: "pyval \<Rightarrow> error + string" where
  "repr_unused v = Inr []"

text \<open>A task whose content is the int \<open>10 ^ 4300\<close>, which has 4301 digits.\<close>

definition huge_int :: int where
  "huge_int = 10 ^ 4300"

definition huge_int_task :: "pyval list" where
  "huge_int_task = [PDict [(''content'', PInt huge_int)]]"


section \<open>Properties\<close>

subsection \<open>The normalisation loop\<close>

lemma validate_loop_map_filter:
  "validate_loop validated todos = validated @ List.map_filter spec_normalize_entry todos"
proof (induction todos arbitrary: validated)
  case Nil
  show ?case by simp
next
  case (Cons todo rest)
  show ?case
  proof (cases todo)
    case (PDict d)
    then show ?thesis
      by (simp add: Cons.IH spec_normalize_entry_def is_empty_def dict_get_def
          py_or_def valid_statuses_def Let_def)
  qed (simp_all add: Cons.IH spec_normalize_entry_def)
qed

text \<open>On text, the type the specification gives the fields, empty means the empty string.\<close>

lemma is_empty_text: "is_empty (PStr s) \<longleftrightarrow> s = []"
  by (simp add: is_empty_def)

lemma validated_todos_spec_normalize: "validated_todos todos = spec_normalize todos"
  by (simp add: validated_todos_def spec_normalize_def validate_loop_map_filter)

lemma validated_mixed_raw:
  "validated_todos mixed_raw =
     [PDict [(''content'', PStr ''T''), (''activeForm'', PStr ''T''), (''status'', PStr ''pending'')],
      PDict [(''content'', PStr ''U''), (''activeForm'', PStr ''Doing U''),
             (''status'', PStr ''in_progress'')],
      PDict [(''content'', PInt 5), (''activeForm'', PInt 5), (''status'', PStr ''pending'')]]"
  by (simp add: validated_todos_def mixed_raw_def dict_get_def py_or_def valid_statuses_def Let_def)

lemma validated_four_tasks:
  "validated_todos four_tasks =
     [PDict [(''content'', PStr ''A''), (''activeForm'', PStr ''A''), (''status'', PStr ''pending'')],
      PDict [(''content'', PStr ''B''), (''activeForm'', PStr ''B''), (''status'', PStr ''pending'')],
      PDict [(''content'', PStr ''C''), (''activeForm'', PStr ''C''),
             (''status'', PStr ''in_progress'')],
      PDict [(''content'', PStr ''D''), (''activeForm'', PStr ''D''),
             (''status'', PStr ''completed'')]]"
  by (simp add: validated_todos_def four_tasks_def dict_get_def py_or_def valid_statuses_def Let_def)

text \<open>
  Claim C1. For every input list of raw values, the list that \<^verbatim>\<open>write_todos\<close> stores
  under the caller's session key, and whose formatted text it returns, is the filter-map of
  the input in input order: entries that are not dicts and entries whose content (default
  the empty string) is empty are skipped; in the others activeForm defaults to content when
  absent or empty, and status becomes \<^verbatim>\<open>"pending"\<close> unless it is one of the three
  recognised words.
\<close>

theorem write_todos_filter_map:
  "snd (write_todos repr todos ctx st) (get_session_key ctx) = Some (spec_normalize todos)
   \<and> fst (write_todos repr todos ctx st) = format_todos repr (spec_normalize todos)"
  by (simp add: write_todos_def validated_todos_spec_normalize Let_def)

theorem write_todos_filter_map_witness:
  "snd (write_todos repr_unused mixed_raw session1 initial_store) (get_session_key session1)
     = Some [PDict [(''content'', PStr ''T''), (''activeForm'', PStr ''T''),
                    (''status'', PStr ''pending'')],
             PDict [(''content'', PStr ''U''), (''activeForm'', PStr ''Doing U''),
                    (''status'', PStr ''in_progress'')],
             PDict [(''content'', PInt 5), (''activeForm'', PInt 5),
                    (''status'', PStr ''pending'')]]"
  using write_todos_filter_map [of repr_unused mixed_raw session1 initial_store]
  by (simp add: spec_normalize_def spec_normalize_entry_def is_empty_def mixed_raw_def Let_def)

subsection \<open>Normalised tasks\<close>

lemma spec_normalize_entry_ok: "spec_normalize_entry raw = Some t \<Longrightarrow> task_ok t"
  by (cases raw) (auto simp: spec_normalize_entry_def Let_def split: if_splits)

lemma spec_normalize_entry_fixed:
  "spec_normalize_entry raw = Some t \<Longrightarrow> spec_normalize_entry t = Some t"
  by (cases raw) (auto simp: spec_normalize_entry_def Let_def is_empty_def split: if_splits)

lemma spec_normalize_all_ok: "list_all task_ok (spec_normalize raws)"
  by (induction raws)
    (auto simp: spec_normalize_def dest: spec_normalize_entry_ok split: option.splits)

lemma map_filter_fixed:
  "List.map_filter spec_normalize_entry (List.map_filter spec_normalize_entry raws)
     = List.map_filter spec_normalize_entry raws"
  by (induction raws) (auto simp: spec_normalize_entry_fixed split: option.splits)

text \<open>
  Claim C9. Normalisation is idempotent: the normalisation pass of \<^verbatim>\<open>write_todos\<close>
  applied to its own output gives that output again.
\<close>

theorem validated_todos_idempotent:
  "validated_todos (validated_todos raws) = validated_todos raws"
  by (simp add: validated_todos_spec_normalize spec_normalize_def map_filter_fixed)

theorem validated_todos_idempotent_witness:
  "validated_todos (validated_todos mixed_raw) =
     [PDict [(''content'', PStr ''T''), (''activeForm'', PStr ''T''), (''status'', PStr ''pending'')],
      PDict [(''content'', PStr ''U''), (''activeForm'', PStr ''Doing U''),
             (''status'', PStr ''in_progress'')],
      PDict [(''content'', PInt 5), (''activeForm'', PInt 5), (''status'', PStr ''pending'')]]"
  by (rule trans [OF validated_todos_idempotent validated_mixed_raw])

subsection \<open>The session store\<close>

text \<open>
  Claim C2. For every session key and raw lists A and B, after a replace with A and then a
  replace with B on that key, a read of the key gives exactly the normalisation of B:
  the whole list is replaced, nothing of A is merged in.
\<close>

theorem replace_twice_get:
  "get_session_key ctx1 = k \<Longrightarrow> get_session_key ctx2 = k \<Longrightarrow>
     fst (get_todos k (snd (write_todos repr B ctx2 (snd (write_todos repr A ctx1 st)))))
       = validated_todos B"
  by (simp add: write_todos_def get_todos_def Let_def)

theorem replace_twice_get_witness:
  "get_session_key session1 = ''s1'' \<and> get_session_key session1_by_client = ''s1''
   \<and> fst (get_todos ''s1''
        (snd (write_todos repr_unused four_tasks session1_by_client
           (snd (write_todos repr_unused mixed_raw session1 initial_store)))))
       = validated_todos four_tasks"
proof -
  have k1: "get_session_key session1 = ''s1''"
    by (simp add: get_session_key_def session1_def)
  have k2: "get_session_key session1_by_client = ''s1''"
    by (simp add: get_session_key_def session1_by_client_def)
  show ?thesis
    by (rule conjI [OF k1 conjI [OF k2 replace_twice_get [OF k1 k2]]])
qed

text \<open>
  Claim C3. For two distinct session keys, a replace on the first does not change what a
  read of the second gives: the lists of all other sessions are as they were.
\<close>

theorem replace_other_session:
  "get_session_key ctx \<noteq> k2 \<Longrightarrow>
     fst (get_todos k2 (snd (write_todos repr A ctx st))) = fst (get_todos k2 st)
     \<and> snd (write_todos repr A ctx st) k2 = st k2"
  by (simp add: write_todos_def get_todos_def Let_def split: option.splits)

theorem replace_other_session_witness:
  "get_session_key session1 \<noteq> ''s2''
   \<and> (fst (get_todos ''s2''
          (snd (write_todos repr_unused four_tasks session1
             (snd (write_todos repr_unused mixed_raw session2 initial_store)))))
        = fst (get_todos ''s2'' (snd (write_todos repr_unused mixed_raw session2 initial_store)))
      \<and> snd (write_todos repr_unused four_tasks session1
             (snd (write_todos repr_unused mixed_raw session2 initial_store))) ''s2''
        = snd (write_todos repr_unused mixed_raw session2 initial_store) ''s2'')"
proof -
  have k: "get_session_key session1 \<noteq> ''s2''"
    by (simp add: get_session_key_def session1_def)
  show ?thesis
    by (rule conjI [OF k replace_other_session [OF k]])
qed

lemma store_ok_initial: "store_ok initial_store"
  by (simp add: store_ok_def initial_store_def)

lemma store_ok_step: "store_ok st \<Longrightarrow> store_ok (step repr x st)"
proof (cases x)
  case (Get k)
  assume "store_ok st"
  then show ?thesis using Get
    by (auto simp: store_ok_def get_todos_def split: option.splits)
next
  case (Write todos ctx)
  assume "store_ok st"
  then show ?thesis using Write spec_normalize_all_ok [of todos]
    by (auto simp: store_ok_def write_todos_def Let_def validated_todos_spec_normalize)
qed

lemma store_ok_fold: "store_ok st \<Longrightarrow> store_ok (fold (step repr) ops st)"
  by (induction ops arbitrary: st) (simp_all add: store_ok_step)

text \<open>
  Claim C4. After any sequence of reads and replaces, starting from the empty store, every
  task of every stored list satisfies the normalisation rules: content non-empty, status
  one of the three recognised words, activeForm non-empty.
\<close>

theorem stored_tasks_normalized:
  "run repr ops initial_store k = Some ts \<Longrightarrow> t \<in> set ts \<Longrightarrow> task_ok t"
  using store_ok_fold [OF store_ok_initial, of repr ops]
  by (auto simp: run_def store_ok_def list_all_iff)

theorem stored_tasks_normalized_witness:
  "run repr_unused [Get ''s2'', Write four_tasks session1, Write mixed_raw session1, Get ''s1'']
       initial_store ''s1''
     = Some [PDict [(''content'', PStr ''T''), (''activeForm'', PStr ''T''),
                    (''status'', PStr ''pending'')],
             PDict [(''content'', PStr ''U''), (''activeForm'', PStr ''Doing U''),
                    (''status'', PStr ''in_progress'')],
             PDict [(''content'', PInt 5), (''activeForm'', PInt 5),
                    (''status'', PStr ''pending'')]]
   \<and> task_ok (PDict [(''content'', PInt 5), (''activeForm'', PInt 5),
                      (''status'', PStr ''pending'')])"
proof -
  have r: "run repr_unused
             [Get ''s2'', Write four_tasks session1, Write mixed_raw session1, Get ''s1'']
             initial_store ''s1''
     = Some [PDict [(''content'', PStr ''T''), (''activeForm'', PStr ''T''),
                    (''status'', PStr ''pending'')],
             PDict [(''content'', PStr ''U''), (''activeForm'', PStr ''Doing U''),
                    (''status'', PStr ''in_progress'')],
             PDict [(''content'', PInt 5), (''activeForm'', PInt 5),
                    (''status'', PStr ''pending'')]]"
    by (simp add: run_def get_todos_def write_todos_def Let_def initial_store_def
        get_session_key_def session1_def validated_mixed_raw)
  have m: "PDict [(''content'', PInt 5), (''activeForm'', PInt 5), (''status'', PStr ''pending'')]
      \<in> set [PDict [(''content'', PStr ''T''), (''activeForm'', PStr ''T''),
                    (''status'', PStr ''pending'')],
             PDict [(''content'', PStr ''U''), (''activeForm'', PStr ''Doing U''),
                    (''status'', PStr ''in_progress'')],
             PDict [(''content'', PInt 5), (''activeForm'', PInt 5),
                    (''status'', PStr ''pending'')]]"
    by simp
  show ?thesis
    by (rule conjI [OF r stored_tasks_normalized [OF r m]])
qed

text \<open>
  Claim C6. For every session key with no prior write, a read does not fail: it returns the
  empty list, stores the empty list under that key, and the formatter turns the result into
  the empty-list sentence.
\<close>

theorem get_todos_unseen_key:
  "st k = None \<Longrightarrow>
     get_todos k st = ([], st(k \<mapsto> []))
     \<and> format_todos repr (fst (get_todos k st)) = Inr ''Todo list is empty.''"
  by (simp add: get_todos_def format_todos_def)

theorem get_todos_unseen_key_witness:
  "initial_store ''s1'' = None
   \<and> (get_todos ''s1'' initial_store = ([], initial_store(''s1'' \<mapsto> []))
      \<and> format_todos repr_unused (fst (get_todos ''s1'' initial_store))
          = Inr ''Todo list is empty.'')"
proof -
  have h: "initial_store ''s1'' = None"
    by (simp add: initial_store_def)
  show ?thesis
    by (rule conjI [OF h get_todos_unseen_key [of initial_store "''s1''" repr_unused, OF h]])
qed

subsection \<open>Decimal notation\<close>

lemma digit_value_digit_char: "d < 10 \<Longrightarrow> digit_value (digit_char d) = Some d"
  by (auto simp: digit_value_def digit_char_def decimal_table_def less_Suc_eq numeral_nat)

lemma decimal_value_snoc:
  "decimal_value (s @ [c]) =
     (case decimal_value s of
        None \<Rightarrow> None
      | Some a \<Rightarrow> (case digit_value c of None \<Rightarrow> None | Some d \<Rightarrow> Some (10 * a + d)))"
  by (simp add: decimal_value_def)

text \<open>The notation is sound: reading the decimal text of a number gives the number.\<close>

lemma decimal_value_decimal: "decimal_value (decimal n) = Some n"
proof (induction n rule: decimal_digits.induct)
  case (1 n)
  show ?case
  proof (cases "n < 10")
    case True
    then show ?thesis
      by (simp add: decimal_def decimal_digits.simps [of n] decimal_value_def
          digit_value_digit_char)
  next
    case False
    have m: "n mod 10 < 10" by simp
    have "decimal n = decimal (n div 10) @ [digit_char (n mod 10)]"
      using False by (simp add: decimal_def decimal_digits.simps [of n])
    then show ?thesis
      using 1 False by (simp add: decimal_value_snoc digit_value_digit_char [OF m])
  qed
qed

lemma digit_char_nth: "d < 10 \<Longrightarrow> ''0123456789'' ! d = digit_char d"
  by (auto simp: digit_char_def decimal_table_def less_Suc_eq numeral_nat nth_Cons')

lemma str_nat_decimal: "str_nat n = decimal n"
proof (induction n rule: str_nat.induct)
  case (1 n)
  show ?case
  proof (cases "n < 10")
    case True
    then show ?thesis
      by (simp add: str_nat.simps [of n] decimal_def decimal_digits.simps [of n] digit_char_nth)
  next
    case False
    have m: "n mod 10 < 10" by simp
    show ?thesis
      using 1 False
      by (simp add: str_nat.simps [of n] decimal_def decimal_digits.simps [of n]
          digit_char_nth [OF m])
  qed
qed

lemma digit_char_not_newline: "digit_char d \<noteq> CHR 0x0A"
  by (simp add: digit_char_def decimal_table_def)

lemma decimal_no_newline: "CHR 0x0A \<notin> set (decimal n)"
  using digit_char_not_newline by (fastforce simp: decimal_def)

subsection \<open>Printing a label\<close>

lemma printable_int_limit: "printable_int n \<longleftrightarrow> \<not> 10 ^ int_max_str_digits \<le> \<bar>n\<bar>"
  unfolding printable_int_def int_max_str_digits_def by (rule not_le [symmetric])

lemma str_int_decimal:
  "printable_int n \<Longrightarrow>
     str_int n = Inr ((if n < 0 then ''-'' else []) @ decimal (nat \<bar>n\<bar>))"
  by (simp add: str_int_def printable_int_limit str_nat_decimal)

lemma str_int_too_long: "\<not> printable_int n \<Longrightarrow> str_int n = Inl ValueError"
  by (simp add: str_int_def printable_int_limit)

lemma py_str_spec_text: "spec_text repr v = Some txt \<Longrightarrow> py_str repr v = Inr txt"
  by (cases v) (auto simp: str_int_decimal split: if_splits sum.splits)

lemma py_str_fails: "spec_text repr v = None \<Longrightarrow> \<exists>e. py_str repr v = Inl e"
  by (cases v) (auto simp: str_int_too_long split: if_splits sum.splits)

lemma int_limit_at_least_ten: "(10::int) \<le> 10 ^ int_max_str_digits"
  by (rule self_le_power) (simp_all add: int_max_str_digits_def)

lemma printable_int_small: "\<bar>n\<bar> < 10 \<Longrightarrow> printable_int n"
proof -
  assume a: "\<bar>n\<bar> < 10"
  have b: "(10::int) \<le> 10 ^ 4300"
    by (rule self_le_power) simp_all
  show ?thesis
    unfolding printable_int_def by (rule less_le_trans [OF a b])
qed

lemma huge_int_positive: "0 < huge_int"
  unfolding huge_int_def by (rule zero_less_power) simp

lemma huge_int_not_printable: "\<not> printable_int huge_int"
proof -
  have "\<bar>huge_int\<bar> = huge_int"
    using huge_int_positive by simp
  moreover have "\<not> huge_int < 10 ^ 4300"
    unfolding huge_int_def by (rule less_irrefl)
  ultimately show ?thesis
    unfolding printable_int_def by (rule ssubst)
qed

subsection \<open>The formatter\<close>

text \<open>The formatter does raise on lists that were not normalised.\<close>

lemma format_todos_not_a_dict: "format_todos repr [PInt 3] = Inl AttributeError"
  by (simp add: format_todos_def format_lines_def)

lemma format_todos_unhashable_status:
  "format_todos repr [PDict [(''content'', PStr ''T''), (''status'', PList [])]] = Inl TypeError"
  by (simp add: format_todos_def format_lines_def icon_get_def dict_get_def)

lemma task_field_dict: "task_field (PDict d) key dflt = dict_get d key dflt"
  by (simp add: dict_get_def)

lemma icon_get_hashable: "hashable v \<Longrightarrow> icon_get v = Inr (spec_icon v)"
  by (cases v) (auto simp: icon_get_def spec_icon_def status_icons_def)

lemma format_loop_lines:
  "list_all formattable todos \<Longrightarrow> list_all (label_printable repr) todos \<Longrightarrow>
     format_loop repr i todos lines
       = Inr (lines @ map (\<lambda>(j, t). the (spec_task_line repr j t)) (List.enumerate i todos))"
proof (induction todos arbitrary: i lines)
  case Nil
  show ?case by simp
next
  case (Cons todo rest)
  from Cons.prems obtain d where d: "todo = PDict d"
    and h: "hashable (dict_get d ''status'' (PStr ''pending''))"
    and r: "list_all formattable rest"
    by (cases todo) auto
  from Cons.prems have p: "list_all (label_printable repr) rest"
    by simp
  from Cons.prems obtain tx where t: "spec_text repr (spec_label (PDict d)) = Some tx"
    by (auto simp: d label_printable_def)
  show ?case
  proof (cases "dict_get d ''status'' (PStr ''pending'') = PStr ''in_progress''")
    case True
    with t have "py_str repr (dict_get d ''activeForm'' (PStr '''')) = Inr tx"
      by (simp add: spec_label_def task_field_dict py_str_spec_text del: task_field.simps)
    then show ?thesis
      using True t
      by (simp add: d icon_get_hashable h Cons.IH [OF r p] Let_def spec_task_line_def
          task_field_dict str_nat_decimal del: task_field.simps)
  next
    case False
    with t have "py_str repr (dict_get d ''content'' (PStr '''')) = Inr tx"
      by (simp add: spec_label_def task_field_dict py_str_spec_text del: task_field.simps)
    then show ?thesis
      using False t
      by (simp add: d icon_get_hashable h Cons.IH [OF r p] Let_def spec_task_line_def
          task_field_dict str_nat_decimal del: task_field.simps)
  qed
qed

lemma format_loop_fails:
  "list_all formattable todos \<Longrightarrow> \<not> list_all (label_printable repr) todos \<Longrightarrow>
     \<exists>e. format_loop repr i todos lines = Inl e"
proof (induction todos arbitrary: i lines)
  case Nil
  then show ?case by simp
next
  case (Cons todo rest)
  from Cons.prems obtain d where d: "todo = PDict d"
    and h: "hashable (dict_get d ''status'' (PStr ''pending''))"
    and r: "list_all formattable rest"
    by (cases todo) auto
  let ?label = "spec_label (PDict d)"
  have l: "?label = (if dict_get d ''status'' (PStr ''pending'') = PStr ''in_progress''
                     then dict_get d ''activeForm'' (PStr '''')
                     else dict_get d ''content'' (PStr ''''))"
    by (simp add: spec_label_def task_field_dict del: task_field.simps)
  show ?case
  proof (cases "spec_text repr ?label")
    case None
    then obtain e where "py_str repr ?label = Inl e"
      using py_str_fails by blast
    then show ?thesis
      by (auto simp: d icon_get_hashable h Let_def l split: if_splits)
  next
    case (Some tx)
    then have s: "py_str repr ?label = Inr tx"
      by (rule py_str_spec_text)
    from Some have "label_printable repr (PDict d)"
      by (simp add: label_printable_def)
    with Cons.prems have "\<not> list_all (label_printable repr) rest"
      by (simp add: d)
    from Cons.IH [OF r this] show ?thesis
      using s by (auto simp: d icon_get_hashable h Let_def l split: if_splits)
  qed
qed

lemma count_status_filter:
  "list_all formattable todos \<Longrightarrow>
     count_status s todos = Inr (length (filter (has_status s) todos))"
proof (induction todos)
  case Nil
  show ?case by simp
next
  case (Cons t ts)
  from Cons.prems obtain d where d: "t = PDict d" and r: "list_all formattable ts"
    by (cases t) auto
  show ?case
    by (simp add: d Cons.IH [OF r] has_status_def task_field_dict del: task_field.simps)
qed

lemma format_lines_eq:
  "list_all formattable todos \<Longrightarrow> list_all (label_printable repr) todos \<Longrightarrow>
     format_lines repr todos
       = Inr (''Todo List:''
              # map (\<lambda>(j, t). the (spec_task_line repr j t)) (List.enumerate 1 todos)
              @ [CHR 0x0A # ''Summary: '' @ count_phrase todos])"
  by (simp add: format_lines_def format_loop_lines count_status_filter count_phrase_def
      summary_phrase_def str_nat_decimal)

lemma format_lines_fails:
  "list_all formattable todos \<Longrightarrow> \<not> list_all (label_printable repr) todos \<Longrightarrow>
     \<exists>e. format_lines repr todos = Inl e"
  using format_loop_fails [of todos repr 1 "[''Todo List:'']"]
  by (auto simp: format_lines_def)

lemma str_join_newline_separated: "str_join ''\<newline>'' ls = newline_separated ls"
  by (induction "''\<newline>''" ls rule: str_join.induct) simp_all

lemma spec_normalize_entry_formattable:
  "spec_normalize_entry raw = Some t \<Longrightarrow> formattable t"
  by (cases raw) (auto simp: spec_normalize_entry_def Let_def dict_get_def split: if_splits)

lemma spec_normalize_formattable: "list_all formattable (spec_normalize raws)"
  by (induction raws)
    (auto simp: spec_normalize_def dest: spec_normalize_entry_formattable split: option.splits)

lemma validated_todos_formattable: "list_all formattable (validated_todos raws)"
  by (simp add: validated_todos_spec_normalize spec_normalize_formattable)

lemma format_todos_returns_iff:
  assumes "list_all formattable todos"
  shows "(\<exists>out. format_todos repr todos = Inr out) \<longleftrightarrow> list_all (label_printable repr) todos"
proof (cases "list_all (label_printable repr) todos")
  case True
  then show ?thesis
    using assms by (simp add: format_todos_def format_lines_eq)
next
  case False
  then have "todos \<noteq> []" by auto
  moreover obtain e where "format_lines repr todos = Inl e"
    using format_lines_fails [OF assms False] by blast
  ultimately show ?thesis
    using False by (simp add: format_todos_def)
qed

subsection \<open>The examples, evaluated\<close>

lemma text_label_printable: "spec_label t = PStr s \<Longrightarrow> label_printable repr t"
  by (simp add: label_printable_def)

lemma mixed_raw_printable: "list_all (label_printable repr) (validated_todos mixed_raw)"
  by (simp add: validated_mixed_raw label_printable_def spec_label_def printable_int_small)

lemma four_tasks_printable: "list_all (label_printable repr) (validated_todos four_tasks)"
  by (simp add: validated_four_tasks label_printable_def spec_label_def)

lemma format_lines_mixed_raw:
  "format_lines repr (validated_todos mixed_raw) =
     Inr [''Todo List:'', ''1. [ ] T'', ''2. [~] Doing U'', ''3. [ ] 5'',
          ''\<newline>Summary: 2 pending, 1 in progress, 0 completed'']"
  by (simp add: validated_mixed_raw format_lines_def dict_get_def icon_get_def
      status_icons_def summary_phrase_def str_nat.simps str_int_decimal printable_int_small
      decimal_def decimal_digits.simps digit_char_def decimal_table_def Let_def)

lemma format_four_tasks:
  "format_todos repr (validated_todos four_tasks) =
     Inr ''Todo List:\<newline>1. [ ] A\<newline>2. [ ] B\<newline>3. [~] C\<newline>4. [x] D\<newline>\<newline>Summary: 2 pending, 1 in progress, 1 completed''"
  by (simp add: validated_four_tasks format_todos_def format_lines_def dict_get_def icon_get_def
      status_icons_def summary_phrase_def str_nat.simps Let_def)

lemma count_phrase_four_tasks:
  "count_phrase (validated_todos four_tasks) = ''2 pending, 1 in progress, 1 completed''"
  by (simp add: validated_four_tasks count_phrase_def has_status_def decimal_def
      decimal_digits.simps digit_char_def decimal_table_def)

lemma huge_int_nonzero: "huge_int \<noteq> 0"
  using huge_int_positive by simp

lemma validated_huge_int_task:
  "validated_todos huge_int_task =
     [PDict [(''content'', PInt huge_int), (''activeForm'', PInt huge_int),
             (''status'', PStr ''pending'')]]"
  by (simp add: validated_todos_def huge_int_task_def dict_get_def py_or_def valid_statuses_def
      Let_def huge_int_nonzero)

lemma format_lines_huge_int_task:
  "format_lines repr (validated_todos huge_int_task) = Inl ValueError"
  by (simp add: validated_huge_int_task format_lines_def dict_get_def icon_get_def
      status_icons_def Let_def str_int_too_long [OF huge_int_not_printable])

subsection \<open>When the tool returns\<close>

text \<open>
  Claim C5, as amended. For every list of values (entries that are not dicts, missing or
  non-text fields, unknown statuses) \<^verbatim>\<open>write_todos\<close> drops the malformed entries and
  stores the normalised list; it then returns a text exactly when the label of every task it
  kept (the activeForm of a task in progress, the content of any other) can be printed, as
  every text, None, bool and int of at most 4300 digits can. Otherwise the formatter raises,
  after the list was stored.
\<close>

theorem write_todos_returns_text:
  "snd (write_todos repr todos ctx st) (get_session_key ctx) = Some (validated_todos todos)
   \<and> ((\<exists>out. fst (write_todos repr todos ctx st) = Inr out)
        \<longleftrightarrow> list_all (label_printable repr) (validated_todos todos))"
  using format_todos_returns_iff [OF validated_todos_formattable, of repr todos]
  by (simp add: write_todos_def Let_def)

theorem write_todos_returns_text_witness:
  "list_all (label_printable repr_unused) (validated_todos mixed_raw)
   \<and> (\<exists>out. fst (write_todos repr_unused mixed_raw session1 initial_store) = Inr out)
   \<and> fst (write_todos repr_unused mixed_raw session1 initial_store)
       = Inr ''Todo List:\<newline>1. [ ] T\<newline>2. [~] Doing U\<newline>3. [ ] 5\<newline>\<newline>Summary: 2 pending, 1 in progress, 0 completed''"
proof -
  have p: "list_all (label_printable repr_unused) (validated_todos mixed_raw)"
    by (simp add: validated_mixed_raw label_printable_def spec_label_def printable_int_small)
  have r: "\<exists>out. fst (write_todos repr_unused mixed_raw session1 initial_store) = Inr out"
    by (rule iffD2 [OF conjunct2 [OF write_todos_returns_text] p])
  have e: "fst (write_todos repr_unused mixed_raw session1 initial_store)
       = Inr ''Todo List:\<newline>1. [ ] T\<newline>2. [~] Doing U\<newline>3. [ ] 5\<newline>\<newline>Summary: 2 pending, 1 in progress, 0 completed''"
    using int_limit_at_least_ten
    by (simp add: write_todos_def validated_mixed_raw format_todos_def format_lines_def
        dict_get_def icon_get_def status_icons_def summary_phrase_def str_nat.simps str_int_def
        Let_def)
  show ?thesis
    by (rule conjI [OF p conjI [OF r e]])
qed

text \<open>
  Claim C5 as it was stated fails: on a task whose content is an int of 4301 digits the call
  raises ValueError.
\<close>

theorem write_todos_huge_int_counterexample:
  "fst (write_todos repr_unused huge_int_task session1 initial_store) = Inl ValueError"
proof -
  have n: "validated_todos huge_int_task \<noteq> []"
    by (simp add: validated_huge_int_task)
  show ?thesis
    using n by (simp add: write_todos_def Let_def format_todos_def format_lines_huge_int_task)
qed

subsection \<open>The task lines\<close>

text \<open>
  Claim C7, as amended. For every non-empty list the formatter accepts whose labels can be
  printed, and so for every non-empty normalised list whose labels can be printed, the line
  of the task at 1-based position \<open>i\<close> is \<^verbatim>\<open>"{i}. {status_icon} {label}"\<close>: the
  index in decimal notation, the icon \<^verbatim>\<open>[ ]\<close> for pending, \<^verbatim>\<open>[~]\<close> for
  in_progress, \<^verbatim>\<open>[x]\<close> for completed and \<^verbatim>\<open>[ ]\<close> for anything else, and as
  label the text of activeForm when the status is in_progress and of content otherwise.
  These lines follow the heading, and the returned text is the lines with a newline between
  each two.
\<close>

theorem format_lines_per_task:
  assumes "list_all formattable todos" and "list_all (label_printable repr) todos"
    and "todos \<noteq> []"
  shows "\<exists>lines. format_lines repr todos = Inr lines
           \<and> format_todos repr todos = Inr (newline_separated lines)
           \<and> length lines = length todos + 2
           \<and> (\<forall>i < length todos. spec_task_line repr (Suc i) (todos ! i) = Some (lines ! Suc i))"
proof -
  let ?lines = "''Todo List:''
      # map (\<lambda>(j, t). the (spec_task_line repr j t)) (List.enumerate 1 todos)
      @ [CHR 0x0A # ''Summary: '' @ count_phrase todos]"
  have l: "format_lines repr todos = Inr ?lines"
    by (rule format_lines_eq [OF assms(1) assms(2)])
  have f: "format_todos repr todos = Inr (newline_separated ?lines)"
    using assms(3) by (simp add: format_todos_def l str_join_newline_separated)
  have n: "length ?lines = length todos + 2"
    by simp
  have s: "\<forall>i < length todos. spec_task_line repr (Suc i) (todos ! i) = Some (?lines ! Suc i)"
  proof (intro allI impI)
    fix i
    assume i: "i < length todos"
    with assms(2) have "label_printable repr (todos ! i)"
      by (simp add: list_all_length)
    then obtain line where "spec_task_line repr (Suc i) (todos ! i) = Some line"
      by (auto simp: label_printable_def spec_task_line_def)
    then show "spec_task_line repr (Suc i) (todos ! i) = Some (?lines ! Suc i)"
      using i by (simp add: nth_append nth_enumerate_eq)
  qed
  show ?thesis
    using l f n s by blast
qed

theorem format_lines_per_task_witness:
  "list_all formattable (validated_todos mixed_raw)
   \<and> list_all (label_printable repr_unused) (validated_todos mixed_raw)
   \<and> validated_todos mixed_raw \<noteq> []
   \<and> (\<exists>lines. format_lines repr_unused (validated_todos mixed_raw) = Inr lines
         \<and> format_todos repr_unused (validated_todos mixed_raw) = Inr (newline_separated lines)
         \<and> length lines = length (validated_todos mixed_raw) + 2
         \<and> (\<forall>i < length (validated_todos mixed_raw).
               spec_task_line repr_unused (Suc i) (validated_todos mixed_raw ! i)
                 = Some (lines ! Suc i)))
   \<and> format_lines repr_unused (validated_todos mixed_raw)
       = Inr [''Todo List:'', ''1. [ ] T'', ''2. [~] Doing U'', ''3. [ ] 5'',
              ''\<newline>Summary: 2 pending, 1 in progress, 0 completed'']
   \<and> format_todos repr_unused (validated_todos mixed_raw)
       = Inr ''Todo List:\<newline>1. [ ] T\<newline>2. [~] Doing U\<newline>3. [ ] 5\<newline>\<newline>Summary: 2 pending, 1 in progress, 0 completed''"
proof -
  have f: "list_all formattable (validated_todos mixed_raw)"
    by (simp add: validated_mixed_raw dict_get_def)
  have p: "list_all (label_printable repr_unused) (validated_todos mixed_raw)"
    by (simp add: validated_mixed_raw label_printable_def spec_label_def printable_int_small)
  have n: "validated_todos mixed_raw \<noteq> []"
    by (simp add: validated_mixed_raw)
  have l: "format_lines repr_unused (validated_todos mixed_raw)
       = Inr [''Todo List:'', ''1. [ ] T'', ''2. [~] Doing U'', ''3. [ ] 5'',
              ''\<newline>Summary: 2 pending, 1 in progress, 0 completed'']"
    using int_limit_at_least_ten
    by (simp add: validated_mixed_raw format_lines_def dict_get_def icon_get_def
        status_icons_def summary_phrase_def str_nat.simps str_int_def Let_def)
  have t: "format_todos repr_unused (validated_todos mixed_raw)
       = Inr ''Todo List:\<newline>1. [ ] T\<newline>2. [~] Doing U\<newline>3. [ ] 5\<newline>\<newline>Summary: 2 pending, 1 in progress, 0 completed''"
    using n by (simp add: format_todos_def l)
  show ?thesis
    by (rule conjI [OF f conjI [OF p conjI [OF n
          conjI [OF format_lines_per_task [OF f p n] conjI [OF l t]]]]])
qed

text \<open>
  Claim C7 as it was stated fails: a non-empty normalised list whose one task has an int of
  4301 digits as content gets no lines, the formatter raises ValueError.
\<close>

theorem format_lines_huge_int_counterexample:
  "validated_todos huge_int_task \<noteq> []
   \<and> list_all task_ok (validated_todos huge_int_task)
   \<and> format_lines repr_unused (validated_todos huge_int_task) = Inl ValueError"
proof (intro conjI)
  show "validated_todos huge_int_task \<noteq> []"
    by (simp add: validated_huge_int_task)
  show "list_all task_ok (validated_todos huge_int_task)"
    by (simp add: validated_huge_int_task is_empty_def huge_int_nonzero)
  show "format_lines repr_unused (validated_todos huge_int_task) = Inl ValueError"
    by (rule format_lines_huge_int_task)
qed

subsection \<open>The lines of the output\<close>

lemma split_lines_nonempty: "split_lines s \<noteq> []"
  by (induction s) (auto split: list.splits)

lemma split_lines_no_newline: "CHR 0x0A \<notin> set s \<Longrightarrow> split_lines s = [s]"
  by (induction s) auto

lemma split_lines_append:
  "split_lines (a @ CHR 0x0A # b) = split_lines a @ split_lines b"
proof (induction a)
  case Nil
  show ?case by simp
next
  case (Cons c a)
  obtain l ls where "split_lines a = l # ls"
    using split_lines_nonempty [of a] by (cases "split_lines a") auto
  with Cons show ?case by simp
qed

lemma count_phrase_no_newline: "CHR 0x0A \<notin> set (count_phrase todos)"
  by (simp add: count_phrase_def decimal_no_newline)

lemma newline_separated_snoc:
  "ls \<noteq> [] \<Longrightarrow> newline_separated (ls @ [z]) = newline_separated ls @ CHR 0x0A # z"
  by (cases ls) simp_all

lemma newline_separated_Cons:
  "ls \<noteq> [] \<Longrightarrow> newline_separated (x # ls) = x @ CHR 0x0A # newline_separated ls"
  by (cases ls) simp_all

lemma format_todos_shape:
  assumes "list_all formattable todos" and "list_all (label_printable repr) todos"
    and "todos \<noteq> []"
  shows "\<exists>body. format_todos repr todos
           = Inr (''Todo List:'' @ CHR 0x0A # body
                   @ CHR 0x0A # CHR 0x0A # ''Summary: '' @ count_phrase todos)"
proof -
  let ?tl = "map (\<lambda>(j, t). the (spec_task_line repr j t)) (List.enumerate 1 todos)"
  let ?s = "CHR 0x0A # ''Summary: '' @ count_phrase todos"
  have ne: "?tl \<noteq> []"
    using assms(3) by (cases todos) simp_all
  have "newline_separated (''Todo List:'' # ?tl @ [?s])
      = ''Todo List:'' @ CHR 0x0A # newline_separated (?tl @ [?s])"
    by (rule newline_separated_Cons) simp
  also have "newline_separated (?tl @ [?s]) = newline_separated ?tl @ CHR 0x0A # ?s"
    by (rule newline_separated_snoc [OF ne])
  finally show ?thesis
    using assms
    by (simp add: format_todos_def format_lines_eq str_join_newline_separated del: newline_separated.simps)
qed

text \<open>
  Claim C10, as amended. For every non-empty task list the formatter accepts whose labels
  can be printed, the text has more than the task lines and the bare count phrase: its first
  line is exactly \<^verbatim>\<open>Todo List:\<close>, its last line is the count phrase with
  \<^verbatim>\<open>Summary: \<close> in front, and the line before the last is blank.
\<close>

theorem format_todos_heading_and_summary:
  assumes "list_all formattable todos" and "list_all (label_printable repr) todos"
    and "todos \<noteq> []"
  shows "\<exists>out. format_todos repr todos = Inr out
           \<and> hd (split_lines out) = ''Todo List:''
           \<and> last (split_lines out) = ''Summary: '' @ count_phrase todos
           \<and> last (butlast (split_lines out)) = []"
proof -
  let ?s = "''Summary: '' @ count_phrase todos"
  obtain body where out:
    "format_todos repr todos = Inr (''Todo List:'' @ CHR 0x0A # body @ CHR 0x0A # CHR 0x0A # ?s)"
    using format_todos_shape [OF assms] by blast
  have s: "split_lines ?s = [?s]"
    by (rule split_lines_no_newline) (simp add: count_phrase_no_newline)
  have "split_lines (''Todo List:'' @ CHR 0x0A # body @ CHR 0x0A # CHR 0x0A # ?s)
      = split_lines ''Todo List:'' @ split_lines (body @ CHR 0x0A # CHR 0x0A # ?s)"
    by (rule split_lines_append)
  also have "split_lines (body @ CHR 0x0A # CHR 0x0A # ?s)
      = split_lines body @ split_lines (CHR 0x0A # ?s)"
    by (rule split_lines_append)
  also have "split_lines (CHR 0x0A # ?s) = [[], ?s]"
    using s by simp
  finally have "split_lines (''Todo List:'' @ CHR 0x0A # body @ CHR 0x0A # CHR 0x0A # ?s)
      = ''Todo List:'' # split_lines body @ [[], ?s]"
    by simp
  then show ?thesis
    using out by (simp add: butlast_append)
qed

theorem format_todos_heading_and_summary_witness:
  "list_all formattable (validated_todos four_tasks)
   \<and> list_all (label_printable repr_unused) (validated_todos four_tasks)
   \<and> validated_todos four_tasks \<noteq> []
   \<and> (\<exists>out. format_todos repr_unused (validated_todos four_tasks) = Inr out
         \<and> hd (split_lines out) = ''Todo List:''
         \<and> last (split_lines out) = ''Summary: '' @ count_phrase (validated_todos four_tasks)
         \<and> last (butlast (split_lines out)) = [])
   \<and> format_todos repr_unused (validated_todos four_tasks)
       = Inr ''Todo List:\<newline>1. [ ] A\<newline>2. [ ] B\<newline>3. [~] C\<newline>4. [x] D\<newline>\<newline>Summary: 2 pending, 1 in progress, 1 completed''"
proof -
  have f: "list_all formattable (validated_todos four_tasks)"
    by (simp add: validated_four_tasks dict_get_def)
  have p: "list_all (label_printable repr_unused) (validated_todos four_tasks)"
    by (simp add: validated_four_tasks label_printable_def spec_label_def)
  have n: "validated_todos four_tasks \<noteq> []"
    by (simp add: validated_four_tasks)
  have t: "format_todos repr_unused (validated_todos four_tasks)
       = Inr ''Todo List:\<newline>1. [ ] A\<newline>2. [ ] B\<newline>3. [~] C\<newline>4. [x] D\<newline>\<newline>Summary: 2 pending, 1 in progress, 1 completed''"
    by (simp add: validated_four_tasks format_todos_def format_lines_def dict_get_def
        icon_get_def status_icons_def summary_phrase_def str_nat.simps Let_def)
  show ?thesis
    by (rule conjI [OF f conjI [OF p conjI [OF n
          conjI [OF format_todos_heading_and_summary [OF f p n] t]]]])
qed

text \<open>
  Claim C10 as it was stated fails: for a non-empty task list whose one task has an int of
  4301 digits as content there is no formatted text, the formatter raises ValueError.
\<close>

theorem format_todos_huge_int_counterexample:
  "validated_todos huge_int_task \<noteq> []
   \<and> format_todos repr_unused (validated_todos huge_int_task) = Inl ValueError"
proof (intro conjI)
  show n: "validated_todos huge_int_task \<noteq> []"
    by (simp add: validated_huge_int_task)
  show "format_todos repr_unused (validated_todos huge_int_task) = Inl ValueError"
    using n by (simp add: format_todos_def format_lines_huge_int_task)
qed

subsection \<open>The scenario of four tasks\<close>

text \<open>
  Claim C8, as amended. After a replace with the four tasks A (pending), B (pending),
  C (in_progress) and D (completed), the last line of the formatted text is exactly
  \<^verbatim>\<open>Summary: 2 pending, 1 in progress, 1 completed\<close>: the count phrase
  \<^verbatim>\<open>2 pending, 1 in progress, 1 completed\<close>, its counts taken from the normalised
  list, with \<^verbatim>\<open>Summary: \<close> in front.
\<close>

theorem four_tasks_summary_line:
  "fst (write_todos repr four_tasks ctx st) =
     Inr ''Todo List:\<newline>1. [ ] A\<newline>2. [ ] B\<newline>3. [~] C\<newline>4. [x] D\<newline>\<newline>Summary: 2 pending, 1 in progress, 1 completed''
   \<and> map_sum id last_line (fst (write_todos repr four_tasks ctx st))
        = Inr (''Summary: '' @ count_phrase (validated_todos four_tasks))
   \<and> count_phrase (validated_todos four_tasks) = ''2 pending, 1 in progress, 1 completed''"
  by (simp add: write_todos_def Let_def format_four_tasks last_line_def count_phrase_four_tasks)

theorem four_tasks_summary_line_witness:
  "map_sum id last_line (fst (write_todos repr_unused four_tasks session1 initial_store))
     = Inr (''Summary: '' @ count_phrase (validated_todos four_tasks))"
  using four_tasks_summary_line [of repr_unused session1 initial_store]
  by (rule conjunct1 [OF conjunct2])

text \<open>
  Claim C8 as it was stated fails: the summary line of that text is not the bare count
  phrase.
\<close>

theorem four_tasks_bare_phrase_counterexample:
  "map_sum id last_line (fst (write_todos repr_unused four_tasks session1 initial_store))
     \<noteq> Inr ''2 pending, 1 in progress, 1 completed''"
  by (simp add: write_todos_def Let_def format_four_tasks last_line_def)

end
